theory Spec2Isabelle
  imports Complex_Main
begin

section \<open>Python values used by the models\<close>

text \<open>
  The repository is a set of Django model classes (\<^verbatim>\<open>accounts/models.py\<close> and
  \<^verbatim>\<open>mecanico/models.py\<close>).  Integer columns hold Python integers, which are unbounded
  and are modelled by \<^typ>\<open>int\<close>.  Price columns hold values of Python's
  \<^verbatim>\<open>decimal.Decimal\<close>: a signed coefficient and a power of ten.  Only finite decimals are
  modelled (no NaN, no infinity), and the sign of a zero is not kept.
\<close>

record Decimal =
  coef :: int
  dexp :: int

datatype py_error = Overflow | IntegrityError

text \<open>
  Arithmetic on decimals runs in the interpreter's default context: 28 significant
  digits, rounding half to even, exponents between \<open>Emin\<close> and \<open>Emax\<close>, and the
  overflow signal trapped (it raises).
\<close>

definition prec :: nat where
  "prec = 28"

definition Emax :: int where
  "Emax = 999999"

definition Emin :: int where
  "Emin = - 999999"

definition Etiny :: int where
  "Etiny = Emin - int prec + 1"

definition Etop :: int where
  "Etop = Emax - int prec + 1"

text \<open>The number of decimal digits of a coefficient; the coefficient 0 has one digit.\<close>

fun ndigits :: "nat \<Rightarrow> nat" where
  "ndigits n = (if n < 10 then 1 else Suc (ndigits (n div 10)))"

declare ndigits.simps [simp del]

text \<open>Dropping the last \<open>k\<close> digits of a coefficient, rounding half to even.\<close>

definition round_half_even :: "nat \<Rightarrow> nat \<Rightarrow> nat" where
  "round_half_even c k =
     (let q = c div 10 ^ k; r = c mod 10 ^ k
      in if 10 ^ k < 2 * r \<or> (2 * r = 10 ^ k \<and> odd q) then q + 1 else q)"

text \<open>
  Every arithmetic result is fitted to the context: a coefficient of more than \<open>prec\<close>
  digits is rounded, a result above \<open>Emax\<close> raises, a result below \<open>Emin\<close> is rounded at
  \<open>Etiny\<close>.
\<close>

definition dec_fix :: "Decimal \<Rightarrow> py_error + Decimal" where
  "dec_fix d =
     (let c = nat \<bar>coef d\<bar> in
      if c = 0 then Inr \<lparr>coef = 0, dexp = min (max (dexp d) Etiny) Emax\<rparr>
      else
        let exp_min0 = int (ndigits c) + dexp d - int prec in
        if Etop < exp_min0 then Inl Overflow
        else
          let exp_min = max exp_min0 Etiny in
          if dexp d < exp_min then
            (let c' = round_half_even c (nat (exp_min - dexp d));
                 carry = (prec < ndigits c');
                 c'' = (if carry then c' div 10 else c');
                 e'' = (if carry then exp_min + 1 else exp_min)
             in if Etop < e'' then Inl Overflow
                else Inr \<lparr>coef = sgn (coef d) * int c'', dexp = e''\<rparr>)
          else Inr d)"

definition dec_mul :: "Decimal \<Rightarrow> Decimal \<Rightarrow> py_error + Decimal" where
  "dec_mul a b = dec_fix \<lparr>coef = coef a * coef b, dexp = dexp a + dexp b\<rparr>"

text \<open>
  \<^verbatim>\<open>n * d\<close> with an integer \<open>n\<close>: the integer is converted exactly, then the
  decimals are multiplied.
\<close>

definition int_mul_dec :: "int \<Rightarrow> Decimal \<Rightarrow> py_error + Decimal" where
  "int_mul_dec n d = dec_mul \<lparr>coef = n, dexp = 0\<rparr> d"

text \<open>The rational number a decimal stands for.\<close>

definition dec_val :: "Decimal \<Rightarrow> rat" where
  "dec_val d =
     (if 0 \<le> dexp d then of_int (coef d) * 10 ^ nat (dexp d)
      else of_int (coef d) / 10 ^ nat (- dexp d))"

text \<open>A property that returns either the integer literal 0 or a decimal.\<close>

datatype number = PyInt int | PyDecimal Decimal

fun num_val :: "number \<Rightarrow> rat" where
  "num_val (PyInt n) = of_int n"
| "num_val (PyDecimal d) = dec_val d"


section \<open>accounts/models.py\<close>


text \<open>
  \<^verbatim>\<open>
  class PerfilUsuario(models.Model):
      user = models.OneToOneField(User, on_delete=models.CASCADE)
      rol = models.CharField(max_length=20, choices=ROL_CHOICES, default='trabajador')
      telefono = models.CharField(max_length=20, blank=True, null=True)
      activo = models.BooleanField(default=True)
      fecha_ingreso = models.DateField(auto_now_add=True)
  \<close>
  Field names carry the prefix \<open>pu_\<close>, since several models share field names.
  Choice lists keep the stored keys and leave the display labels out.
\<close>

record PerfilUsuario =
  pu_id :: nat
  pu_user :: nat
  pu_rol :: string
  pu_telefono :: "string option"
  pu_activo :: bool
  pu_fecha_ingreso :: nat

definition ROL_CHOICES :: "string list" where
  "ROL_CHOICES = [''administrador'', ''trabajador'', ''tecnico'']"

definition es_administrador :: "PerfilUsuario \<Rightarrow> bool" where
  "es_administrador p = (pu_rol p = ''administrador'')"

definition es_trabajador :: "PerfilUsuario \<Rightarrow> bool" where
  "es_trabajador p = (pu_rol p = ''trabajador'')"

definition es_tecnico :: "PerfilUsuario \<Rightarrow> bool" where
  "es_tecnico p = (pu_rol p = ''tecnico'')"


text \<open>A fresh primary key: larger than every key in use.\<close>

definition next_pk :: "nat list \<Rightarrow> nat" where
  "next_pk ks = Suc (fold max ks 0)"











section \<open>mecanico/models.py: records and derived properties\<close>

text \<open>
  A column declared without \<^verbatim>\<open>null=True\<close> has the type of its values; a nullable
  column has an option type.  Foreign keys are the keys of the rows they reference, dates
  and times are numbers, and the time stamps the framework fills in on saving are
  \<open>None\<close> before the first save.  Field names carry a prefix per model
  (\<open>em_\<close>, \<open>ms_\<close>, \<open>ot_\<close>, \<open>eu_\<close>).
\<close>

record ElementoMecanico =
  em_id :: "nat option"
  em_codigo :: string
  em_nombre :: string
  em_categoria :: nat
  em_descripcion :: "string option"
  em_medidas :: "string option"
  em_material :: "string option"
  em_marca :: "string option"
  em_modelo :: "string option"
  em_cantidad_actual :: int
  em_stock_minimo :: int
  em_unidad_medida :: string
  em_ubicacion :: nat
  em_precio_compra :: "Decimal option"
  em_precio_venta :: "Decimal option"
  em_observaciones :: "string option"
  em_activo :: bool
  em_fecha_creacion :: "nat option"
  em_fecha_actualizacion :: "nat option"
  em_usuario_creacion :: nat

definition UNIDAD_MEDIDA_CHOICES :: "string list" where
  "UNIDAD_MEDIDA_CHOICES =
     [''unidad'', ''metro'', ''litro'', ''kilogramo'', ''caja'', ''juego'']"

text \<open>
  The declared defaults of the two stock columns:
  \<^verbatim>\<open>
  cantidad_actual = models.IntegerField(default=0, validators=[MinValueValidator(0)])
  stock_minimo = models.IntegerField(default=5, validators=[MinValueValidator(0)])
  \<close>
\<close>

definition cantidad_actual_default :: int where
  "cantidad_actual_default = 0"

definition stock_minimo_default :: int where
  "stock_minimo_default = 5"

text \<open>
  \<^verbatim>\<open>ElementoMecanico(codigo=..., nombre=..., categoria=..., ubicacion=...,
  usuario_creacion=...)\<close>: every column that is not given takes its declared default.
\<close>

definition ElementoMecanico_init ::
  "string \<Rightarrow> string \<Rightarrow> nat \<Rightarrow> nat \<Rightarrow> nat \<Rightarrow> ElementoMecanico" where
  "ElementoMecanico_init codigo nombre categoria ubicacion usuario_creacion =
     \<lparr>em_id = None, em_codigo = codigo, em_nombre = nombre, em_categoria = categoria,
      em_descripcion = None, em_medidas = None, em_material = None, em_marca = None,
      em_modelo = None, em_cantidad_actual = cantidad_actual_default,
      em_stock_minimo = stock_minimo_default, em_unidad_medida = ''unidad'',
      em_ubicacion = ubicacion, em_precio_compra = None, em_precio_venta = None,
      em_observaciones = None, em_activo = True, em_fecha_creacion = None,
      em_fecha_actualizacion = None, em_usuario_creacion = usuario_creacion\<rparr>"

text \<open>
  \<^verbatim>\<open>
  @property
  def stock_bajo(self):
      return self.cantidad_actual <= self.stock_minimo
  \<close>
\<close>

definition stock_bajo :: "ElementoMecanico \<Rightarrow> bool" where
  "stock_bajo e = (em_cantidad_actual e \<le> em_stock_minimo e)"

text \<open>
  \<^verbatim>\<open>
  @property
  def valor_total_stock(self):
      if self.precio_compra:
          return self.cantidad_actual * self.precio_compra
      return 0
  \<close>
  \<^verbatim>\<open>None\<close> and a decimal with coefficient zero are both false.
\<close>

definition valor_total_stock :: "ElementoMecanico \<Rightarrow> py_error + number" where
  "valor_total_stock e =
     (case em_precio_compra e of
        None \<Rightarrow> Inr (PyInt 0)
      | Some p \<Rightarrow>
          if coef p = 0 then Inr (PyInt 0)
          else (case int_mul_dec (em_cantidad_actual e) p of
                  Inl err \<Rightarrow> Inl err
                | Inr v \<Rightarrow> Inr (PyDecimal v)))"

record MovimientoStock =
  ms_id :: "nat option"
  ms_elemento :: nat
  ms_tipo_movimiento :: string
  ms_cantidad :: int
  ms_motivo :: string
  ms_stock_anterior :: int
  ms_stock_nuevo :: int
  ms_fecha_movimiento :: "nat option"
  ms_usuario :: nat

definition TIPO_MOVIMIENTO_CHOICES :: "string list" where
  "TIPO_MOVIMIENTO_CHOICES = [''entrada'', ''salida'', ''ajuste'', ''devolucion'']"

record OrdenTrabajo =
  ot_id :: "nat option"
  ot_numero_orden :: string
  ot_cliente :: nat
  ot_tipo_maquina :: nat
  ot_marca_maquina :: "string option"
  ot_modelo_maquina :: "string option"
  ot_numero_serie :: "string option"
  ot_ano_maquina :: "int option"
  ot_motivo_ingreso :: string
  ot_descripcion_trabajo :: "string option"
  ot_observaciones :: "string option"
  ot_estado :: string
  ot_fecha_ingreso :: "nat option"
  ot_fecha_estimada_entrega :: "nat option"
  ot_fecha_entrega_real :: "nat option"
  ot_costo_estimado :: "Decimal option"
  ot_costo_final :: "Decimal option"
  ot_tecnico_asignado :: "nat option"
  ot_usuario_creacion :: nat

definition ESTADO_CHOICES :: "string list" where
  "ESTADO_CHOICES =
     [''ingreso'', ''presupuesto'', ''confirmacion'', ''en_proceso'', ''terminado'',
      ''entregado'', ''cancelado'']"

record ElementoUsadoOrden =
  eu_id :: "nat option"
  eu_orden :: nat
  eu_elemento :: nat
  eu_cantidad_usada :: int
  eu_precio_unitario :: Decimal
  eu_fecha_uso :: "nat option"
  eu_usuario :: nat

text \<open>
  \<^verbatim>\<open>
  @property
  def subtotal(self):
      return self.cantidad_usada * self.precio_unitario
  \<close>
\<close>

definition subtotal :: "ElementoUsadoOrden \<Rightarrow> py_error + Decimal" where
  "subtotal l = int_mul_dec (eu_cantidad_usada l) (eu_precio_unitario l)"


section \<open>mecanico/models.py: model validation\<close>

text \<open>
  The field declarations are read by the framework's model validation
  (\<^verbatim>\<open>full_clean\<close>), which returns the errors of a record field by field.  An error is
  the name of the field and the code of the message (\<^verbatim>\<open>blank\<close>:
  "This field cannot be blank.", \<^verbatim>\<open>min_value\<close>: "Ensure this value is greater than
  or equal to ...", \<^verbatim>\<open>unique\<close>: "... with this ... already exists.", and so on).
  A record is accepted when the list is empty.  The existence of the rows that foreign
  keys reference and the integer range of the database backend are not part of the model.
\<close>

datatype code =
  Blank | Invalid_choice | Max_length | Min_value | Unique
  | Max_digits | Max_decimal_places | Max_whole_digits

type_synonym field_error = "string \<times> code"

definition on_field :: "string \<Rightarrow> code list \<Rightarrow> field_error list" where
  "on_field name codes = map (Pair name) codes"

definition max_length_validator :: "nat \<Rightarrow> string \<Rightarrow> code list" where
  "max_length_validator limit v = (if limit < length v then [Max_length] else [])"

definition min_value_validator :: "int \<Rightarrow> int \<Rightarrow> code list" where
  "min_value_validator limit v = (if v < limit then [Min_value] else [])"

text \<open>
  The validator of a \<^verbatim>\<open>DecimalField(max_digits, decimal_places)\<close>: it counts the digits
  and the decimal places of the value and raises the first bound that is exceeded.
\<close>

definition decimal_validator :: "nat \<Rightarrow> nat \<Rightarrow> Decimal \<Rightarrow> code list" where
  "decimal_validator max_digits decimal_places v =
     (let n = ndigits (nat \<bar>coef v\<bar>);
          digits = (if 0 \<le> dexp v then (if coef v = 0 then n else n + nat (dexp v))
                    else if n < nat (- dexp v) then nat (- dexp v) else n);
          decimals = (if 0 \<le> dexp v then 0 else nat (- dexp v))
      in if max_digits < digits then [Max_digits]
         else if decimal_places < decimals then [Max_decimal_places]
         else if max_digits - decimal_places < digits - decimals then [Max_whole_digits]
         else [])"

text \<open>
  A text column (\<^verbatim>\<open>CharField\<close>, \<^verbatim>\<open>TextField\<close>) with its \<^verbatim>\<open>blank\<close> option, its
  \<^verbatim>\<open>max_length\<close> (none for a \<^verbatim>\<open>TextField\<close>) and its \<^verbatim>\<open>choices\<close>: an empty
  value is skipped when blank is allowed; otherwise the value must be one of the choices,
  must not be empty, and must pass the length validator.
\<close>

definition clean_char :: "bool \<Rightarrow> nat option \<Rightarrow> string list option \<Rightarrow> string \<Rightarrow> code list" where
  "clean_char allow_blank max_length choices v =
     (if allow_blank \<and> v = [] then []
      else if v \<noteq> [] \<and> (case choices of None \<Rightarrow> False | Some cs \<Rightarrow> v \<notin> set cs)
        then [Invalid_choice]
      else if v = [] then [Blank]
      else (case max_length of None \<Rightarrow> [] | Some n \<Rightarrow> max_length_validator n v))"

text \<open>An integer column: every declared validator runs, and the errors are collected.\<close>

definition clean_integer :: "(int \<Rightarrow> code list) list \<Rightarrow> int \<Rightarrow> code list" where
  "clean_integer validators v = concat (map (\<lambda>f. f v) validators)"

text \<open>A column with \<^verbatim>\<open>blank=True, null=True\<close>: \<^verbatim>\<open>None\<close> is skipped.\<close>

definition clean_opt :: "('a \<Rightarrow> code list) \<Rightarrow> 'a option \<Rightarrow> code list" where
  "clean_opt f v = (case v of None \<Rightarrow> [] | Some x \<Rightarrow> f x)"

text \<open>
  The uniqueness check of a column runs after the field checks, and only when the field
  itself had no error.  The rows compared are those of the table other than the record's
  own row.
\<close>

definition unique_check :: "string \<Rightarrow> field_error list \<Rightarrow> bool \<Rightarrow> field_error list" where
  "unique_check name errs taken =
     (if name \<in> set (map fst errs) then []
      else if taken then [(name, Unique)] else [])"

definition clean_fields_elemento :: "ElementoMecanico \<Rightarrow> field_error list" where
  "clean_fields_elemento e =
     on_field ''codigo'' (clean_char False (Some 50) None (em_codigo e)) @
     on_field ''nombre'' (clean_char False (Some 200) None (em_nombre e)) @
     on_field ''descripcion'' (clean_opt (clean_char True None None) (em_descripcion e)) @
     on_field ''medidas'' (clean_opt (clean_char True (Some 100) None) (em_medidas e)) @
     on_field ''material'' (clean_opt (clean_char True (Some 100) None) (em_material e)) @
     on_field ''marca'' (clean_opt (clean_char True (Some 100) None) (em_marca e)) @
     on_field ''modelo'' (clean_opt (clean_char True (Some 100) None) (em_modelo e)) @
     on_field ''cantidad_actual''
       (clean_integer [min_value_validator 0] (em_cantidad_actual e)) @
     on_field ''stock_minimo'' (clean_integer [min_value_validator 0] (em_stock_minimo e)) @
     on_field ''unidad_medida''
       (clean_char False (Some 20) (Some UNIDAD_MEDIDA_CHOICES) (em_unidad_medida e)) @
     on_field ''precio_compra'' (clean_opt (decimal_validator 10 2) (em_precio_compra e)) @
     on_field ''precio_venta'' (clean_opt (decimal_validator 10 2) (em_precio_venta e)) @
     on_field ''observaciones'' (clean_opt (clean_char True None None) (em_observaciones e))"

definition full_clean_elemento :: "ElementoMecanico list \<Rightarrow> ElementoMecanico \<Rightarrow> field_error list" where
  "full_clean_elemento tbl e =
     (let errs = clean_fields_elemento e
      in errs @ unique_check ''codigo'' errs
           (em_codigo e \<in> set (map em_codigo
              (filter (\<lambda>r. em_id e = None \<or> em_id r \<noteq> em_id e) tbl))))"

definition full_clean_movimiento :: "MovimientoStock \<Rightarrow> field_error list" where
  "full_clean_movimiento m =
     on_field ''tipo_movimiento''
       (clean_char False (Some 20) (Some TIPO_MOVIMIENTO_CHOICES) (ms_tipo_movimiento m)) @
     on_field ''cantidad'' (clean_integer [min_value_validator 1] (ms_cantidad m)) @
     on_field ''motivo'' (clean_char False None None (ms_motivo m)) @
     on_field ''stock_anterior'' (clean_integer [] (ms_stock_anterior m)) @
     on_field ''stock_nuevo'' (clean_integer [] (ms_stock_nuevo m))"

definition full_clean_usado :: "ElementoUsadoOrden \<Rightarrow> field_error list" where
  "full_clean_usado l =
     on_field ''cantidad_usada'' (clean_integer [min_value_validator 1] (eu_cantidad_usada l)) @
     on_field ''precio_unitario'' (decimal_validator 10 2 (eu_precio_unitario l))"

definition clean_fields_orden :: "OrdenTrabajo \<Rightarrow> field_error list" where
  "clean_fields_orden ot =
     on_field ''numero_orden'' (clean_char False (Some 20) None (ot_numero_orden ot)) @
     on_field ''marca_maquina''
       (clean_opt (clean_char True (Some 100) None) (ot_marca_maquina ot)) @
     on_field ''modelo_maquina''
       (clean_opt (clean_char True (Some 100) None) (ot_modelo_maquina ot)) @
     on_field ''numero_serie''
       (clean_opt (clean_char True (Some 100) None) (ot_numero_serie ot)) @
     on_field ''ano_maquina''
       (clean_opt (clean_integer [min_value_validator 1900]) (ot_ano_maquina ot)) @
     on_field ''motivo_ingreso'' (clean_char False None None (ot_motivo_ingreso ot)) @
     on_field ''descripcion_trabajo''
       (clean_opt (clean_char True None None) (ot_descripcion_trabajo ot)) @
     on_field ''observaciones'' (clean_opt (clean_char True None None) (ot_observaciones ot)) @
     on_field ''estado'' (clean_char False (Some 20) (Some ESTADO_CHOICES) (ot_estado ot)) @
     on_field ''costo_estimado'' (clean_opt (decimal_validator 10 2) (ot_costo_estimado ot)) @
     on_field ''costo_final'' (clean_opt (decimal_validator 10 2) (ot_costo_final ot))"

definition full_clean_orden :: "OrdenTrabajo list \<Rightarrow> OrdenTrabajo \<Rightarrow> field_error list" where
  "full_clean_orden tbl ot =
     (let errs = clean_fields_orden ot
      in errs @ unique_check ''numero_orden'' errs
           (ot_numero_orden ot \<in> set (map ot_numero_orden
              (filter (\<lambda>r. ot_id ot = None \<or> ot_id r \<noteq> ot_id ot) tbl))))"


section \<open>mecanico/models.py: stored movements and state changes\<close>

text \<open>
  \<^verbatim>\<open>MovimientoStock.objects.create(...)\<close> inserts the row as it is given.  The
  database checks the two foreign keys and the primary key, when one is given; the
  framework fills in a missing key and the time stamp.  No validator runs on this path,
  and no other table is written.
\<close>

record mecanico_db =
  elementos :: "ElementoMecanico list"
  movimientos :: "MovimientoStock list"
  usuarios :: "nat list"
  ahora :: nat

definition movimiento_create :: "mecanico_db \<Rightarrow> MovimientoStock \<Rightarrow> py_error + mecanico_db" where
  "movimiento_create d m =
     (if Some (ms_elemento m) \<in> set (map em_id (elementos d)) \<and>
         ms_usuario m \<in> set (usuarios d) \<and>
         (ms_id m = None \<or> ms_id m \<notin> set (map ms_id (movimientos d)))
      then Inr (d\<lparr>movimientos :=
             m\<lparr>ms_id := Some (case ms_id m of
                               None \<Rightarrow> next_pk (List.map_filter ms_id (movimientos d))
                             | Some k \<Rightarrow> k),
               ms_fecha_movimiento := Some (ahora d)\<rparr> # movimientos d\<rparr>)
      else Inl IntegrityError)"





section \<open>Example data\<close>





text \<open>
  An inventory with one item of which 10 are in stock, and a movement of that item whose
  recorded quantities are 100 before and 7 after an entry of 3.
\<close>

definition ejemplo_mecanico_db :: mecanico_db where
  "ejemplo_mecanico_db =
     \<lparr>elementos = [(ElementoMecanico_init ''T-8'' ''Tuerca'' 1 1 1)
                     \<lparr>em_id := Some 1, em_cantidad_actual := 10\<rparr>],
      movimientos = [], usuarios = [1], ahora = 100\<rparr>"

definition ejemplo_movimiento :: MovimientoStock where
  "ejemplo_movimiento =
     \<lparr>ms_id = None, ms_elemento = 1, ms_tipo_movimiento = ''entrada'', ms_cantidad = 3,
      ms_motivo = ''compra'', ms_stock_anterior = 100, ms_stock_nuevo = 7,
      ms_fecha_movimiento = None, ms_usuario = 1\<rparr>"




section \<open>Decimal arithmetic within the context precision\<close>

lemma ndigits_le: "n < 10 ^ k \<Longrightarrow> 0 < k \<Longrightarrow> ndigits n \<le> k"
proof (induction k arbitrary: n)
  case 0
  then show ?case by simp
next
  case (Suc k)
  show ?case
  proof (cases "n < 10")
    case True
    then show ?thesis by (simp add: ndigits.simps)
  next
    case False
    then have k: "0 < k" using Suc.prems by (cases k) auto
    have "n div 10 < 10 ^ k" using Suc.prems by (simp add: less_mult_imp_div_less mult.commute)
    then have "ndigits (n div 10) \<le> k" using Suc.IH k by blast
    then show ?thesis using False by (subst ndigits.simps) simp
  qed
qed

text \<open>A value of at most \<open>prec\<close> digits whose exponent is in range is left as it is.\<close>

lemma dec_fix_exact:
  assumes "\<bar>coef d\<bar> < 10 ^ prec" and "Etiny \<le> dexp d" and "dexp d \<le> Etop"
  shows "dec_fix d = Inr d"
proof (cases "coef d = 0")
  case True
  have "Etop \<le> Emax" by (simp add: Etop_def prec_def)
  then have "min (max (dexp d) Etiny) Emax = dexp d" using assms by simp
  then show ?thesis using True by (simp add: dec_fix_def)
next
  case False
  have "nat \<bar>coef d\<bar> < 10 ^ prec" using assms(1) by (simp add: nat_less_iff)
  then have nd: "ndigits (nat \<bar>coef d\<bar>) \<le> prec" by (rule ndigits_le) (simp add: prec_def)
  then have le: "int (ndigits (nat \<bar>coef d\<bar>)) + dexp d - int prec \<le> dexp d" by simp
  then have 1: "\<not> Etop < int (ndigits (nat \<bar>coef d\<bar>)) + dexp d - int prec"
    using assms(3) by linarith
  have 2: "\<not> dexp d < max (int (ndigits (nat \<bar>coef d\<bar>)) + dexp d - int prec) Etiny"
    using le assms(2) by linarith
  have 3: "nat \<bar>coef d\<bar> \<noteq> 0" using False by simp
  show ?thesis unfolding dec_fix_def Let_def
    by (simp only: 1 2 3 if_False)
qed

lemma dec_val_scale: "dec_val \<lparr>coef = n * coef p, dexp = dexp p\<rparr> = of_int n * dec_val p"
  by (simp add: dec_val_def)

lemma int_mul_dec_exact:
  assumes "\<bar>n * coef p\<bar> < 10 ^ prec" and "Etiny \<le> dexp p" and "dexp p \<le> Etop"
  shows "int_mul_dec n p = Inr \<lparr>coef = n * coef p, dexp = dexp p\<rparr>"
  using assms by (simp add: int_mul_dec_def dec_mul_def dec_fix_exact)

lemma ndigits_pos: "0 < ndigits n"
  by (subst ndigits.simps) simp

lemma ndigits_bound: "ndigits n \<le> k \<Longrightarrow> n < 10 ^ k"
proof (induction k arbitrary: n)
  case 0
  then show ?case using ndigits_pos [of n] by simp
next
  case (Suc k)
  show ?case
  proof (cases "n < 10")
    case True
    have "(1::nat) \<le> 10 ^ k" by simp
    then have "n < 10 * 10 ^ k" using True by linarith
    then show ?thesis by simp
  next
    case False
    then have "ndigits (n div 10) \<le> k" using Suc.prems by (subst (asm) ndigits.simps) simp
    then have "n div 10 < 10 ^ k" by (rule Suc.IH)
    then show ?thesis by (simp add: div_less_iff_less_mult mult.commute)
  qed
qed

text \<open>What a price accepted by the decimal validator of the price columns looks like.\<close>

lemma decimal_validator_bounds:
  assumes "decimal_validator 10 2 p = []"
  shows "\<bar>coef p\<bar> < 10 ^ 10" and "- 2 \<le> dexp p" and "coef p \<noteq> 0 \<Longrightarrow> dexp p \<le> 9"
proof -
  let ?n = "ndigits (nat \<bar>coef p\<bar>)"
  have n: "?n \<le> 10" and e: "- 2 \<le> dexp p" and z: "coef p \<noteq> 0 \<longrightarrow> dexp p \<le> 9"
    using assms ndigits_pos [of "nat \<bar>coef p\<bar>"]
    by (auto simp: decimal_validator_def Let_def split: if_splits)
  have "nat \<bar>coef p\<bar> < 10 ^ 10" using n by (rule ndigits_bound)
  then show "\<bar>coef p\<bar> < 10 ^ 10" by (simp add: nat_less_iff)
  show "- 2 \<le> dexp p" by (rule e)
  show "coef p \<noteq> 0 \<Longrightarrow> dexp p \<le> 9" using z by simp
qed

lemma int_mul_dec_field_values:
  assumes v: "decimal_validator 10 2 p = []" and q: "\<bar>n\<bar> < 10 ^ 18"
  shows "\<exists>d. int_mul_dec n p = Inr d \<and> dec_val d = of_int n * dec_val p"
proof (cases "coef p = 0")
  case True
  then show ?thesis
    by (simp add: int_mul_dec_def dec_mul_def dec_fix_def dec_val_def)
next
  case False
  note b = decimal_validator_bounds [OF v]
  have "\<bar>n * coef p\<bar> = \<bar>n\<bar> * \<bar>coef p\<bar>" by (simp add: abs_mult)
  also have "\<dots> < 10 ^ 18 * 10 ^ 10"
    using q b(1) by (intro mult_strict_mono) auto
  also have "\<dots> = (10::int) ^ prec" by (simp add: prec_def)
  finally have 1: "\<bar>n * coef p\<bar> < 10 ^ prec" .
  have 2: "Etiny \<le> dexp p" using b(2) by (simp add: Etiny_def Emin_def prec_def)
  have 3: "dexp p \<le> Etop" using b(3) False by (simp add: Etop_def Emax_def prec_def)
  show ?thesis using int_mul_dec_exact [OF 1 2 3] by (simp add: dec_val_scale)
qed



section \<open>Derived properties of inventory items and used-item lines\<close>

text \<open>
  Claim C2.  For every inventory item and all non-negative integer values \<open>q\<close> of the
  current quantity and \<open>m\<close> of the minimum threshold, \<open>stock_bajo\<close> is true if and only
  if \<open>q \<le> m\<close>.
\<close>

theorem stock_bajo_iff:
  "stock_bajo (e\<lparr>em_cantidad_actual := int q, em_stock_minimo := int m\<rparr>) \<longleftrightarrow> q \<le> m"
  by (simp add: stock_bajo_def)

text \<open>
  Claim C9.  An inventory item whose stock fields have their declared defaults
  (current quantity 0, minimum threshold 5) has \<open>stock_bajo\<close> true, whatever its other
  fields are.  The instance \<open>ElementoMecanico_init\<close> builds is such an item.
\<close>

theorem stock_bajo_default:
  "em_cantidad_actual e = cantidad_actual_default \<Longrightarrow> em_stock_minimo e = stock_minimo_default
   \<Longrightarrow> stock_bajo e"
  by (simp add: stock_bajo_def cantidad_actual_default_def stock_minimo_default_def)

theorem stock_bajo_default_witness:
  "em_cantidad_actual (ElementoMecanico_init ''T-8'' ''Tuerca'' 1 1 1) = cantidad_actual_default \<and>
   em_stock_minimo (ElementoMecanico_init ''T-8'' ''Tuerca'' 1 1 1) = stock_minimo_default \<and>
   stock_bajo (ElementoMecanico_init ''T-8'' ''Tuerca'' 1 1 1)"
  using stock_bajo_default [of "ElementoMecanico_init ''T-8'' ''Tuerca'' 1 1 1"]
  by (simp add: ElementoMecanico_init_def)








section \<open>Users and their profiles\<close>
















section \<open>Validation of records, stock movements and order states\<close>

lemma on_field_names: "fst ` set (on_field name codes) = (if codes = [] then {} else {name})"
  by (cases codes) (auto simp: on_field_def image_iff)

lemma on_field_Nil: "on_field name codes = [] \<longleftrightarrow> codes = []"
  by (simp add: on_field_def)



lemma unique_check_names:
  "fst ` set (unique_check name errs taken) =
     (if name \<notin> fst ` set errs \<and> taken then {name} else {})"
  by (auto simp: unique_check_def)

lemma estado_clean:
  "clean_char False (Some 20) (Some ESTADO_CHOICES) s = [] \<longleftrightarrow> s \<in> set ESTADO_CHOICES"
  by (auto simp: clean_char_def ESTADO_CHOICES_def max_length_validator_def)

text \<open>
  Claim C4.  Validation of a work order reports an error on the field \<^verbatim>\<open>estado\<close> if
  and only if its value is not one of the seven enumerated values: the seven values are
  accepted, every other value is rejected.
\<close>

theorem estado_rejected_iff:
  "''estado'' \<in> fst ` set (full_clean_orden tbl ot) \<longleftrightarrow> ot_estado ot \<notin> set ESTADO_CHOICES"
  by (simp add: full_clean_orden_def clean_fields_orden_def Let_def image_Un
      on_field_names unique_check_names estado_clean)









text \<open>
  Claim C3.  Creating a movement does not check the recorded quantities: on an inventory
  whose item has 10 in stock, a movement that records 100 before and 7 after an entry of
  3 passes validation and is stored as given, while the item keeps its quantity of 10.
\<close>

theorem movimiento_create_unchecked:
  "movimiento_create ejemplo_mecanico_db ejemplo_movimiento =
     Inr (ejemplo_mecanico_db\<lparr>movimientos :=
       [ejemplo_movimiento\<lparr>ms_id := Some 1, ms_fecha_movimiento := Some 100\<rparr>]\<rparr>) \<and>
   full_clean_movimiento ejemplo_movimiento = [] \<and>
   map em_cantidad_actual (filter (\<lambda>e. em_id e = Some (ms_elemento ejemplo_movimiento))
     (elementos ejemplo_mecanico_db)) = [10] \<and>
   ms_stock_anterior ejemplo_movimiento = 100 \<and>
   ms_cantidad ejemplo_movimiento = 3 \<and>
   ms_stock_nuevo ejemplo_movimiento = 7"
  by (simp add: movimiento_create_def ejemplo_mecanico_db_def ejemplo_movimiento_def
      ElementoMecanico_init_def next_pk_def full_clean_movimiento_def
      on_field_def clean_char_def clean_integer_def min_value_validator_def
      TIPO_MOVIMIENTO_CHOICES_def max_length_validator_def)

lemma movimiento_create_ignores_stock:
  "(case movimiento_create d (m\<lparr>ms_stock_anterior := a, ms_stock_nuevo := b\<rparr>) of
      Inl err \<Rightarrow> movimiento_create d m = Inl err
    | Inr d' \<Rightarrow> elementos d' = elementos d \<and> (\<exists>d''. movimiento_create d m = Inr d''))"
  by (simp add: movimiento_create_def)


section \<open>Valid records are within the precision\<close>

text \<open>
  In particular the subtotal of a valid line with a quantity of at most 18 digits is exact;
  every 32-bit quantity is of that kind.
\<close>

lemma subtotal_valid_line:
  assumes "full_clean_usado l = []" and "eu_cantidad_usada l < 10 ^ 18"
  shows "\<exists>d. subtotal l = Inr d \<and>
           dec_val d = of_int (eu_cantidad_usada l) * dec_val (eu_precio_unitario l)"
proof -
  have v: "decimal_validator 10 2 (eu_precio_unitario l) = []"
    and m: "1 \<le> eu_cantidad_usada l"
    using assms(1)
    by (auto simp: full_clean_usado_def on_field_def clean_integer_def
        min_value_validator_def split: if_splits)
  have "\<bar>eu_cantidad_usada l\<bar> < 10 ^ 18" using m assms(2) by simp
  then show ?thesis unfolding subtotal_def using v by (intro int_mul_dec_field_values)
qed

text \<open>The same holds for the stock value of a valid item.\<close>

lemma valor_total_stock_valid_item:
  assumes "full_clean_elemento tbl e = []" and "em_cantidad_actual e < 10 ^ 18"
  shows "\<exists>v. valor_total_stock e = Inr v \<and>
           num_val v = (case em_precio_compra e of None \<Rightarrow> 0
                | Some p \<Rightarrow> of_int (em_cantidad_actual e) * dec_val p)"
proof (cases "em_precio_compra e")
  case None
  then show ?thesis by (simp add: valor_total_stock_def)
next
  case (Some p)
  have c: "clean_fields_elemento e = []"
    using assms(1) by (simp add: full_clean_elemento_def Let_def)
  have v: "decimal_validator 10 2 p = []"
    using c Some by (simp add: clean_fields_elemento_def on_field_Nil clean_opt_def)
  have m: "0 \<le> em_cantidad_actual e"
    using c
    by (auto simp: clean_fields_elemento_def on_field_Nil clean_integer_def
        min_value_validator_def split: if_splits)
  have "\<bar>em_cantidad_actual e\<bar> < 10 ^ 18" using m assms(2) by simp
  then obtain d where d: "int_mul_dec (em_cantidad_actual e) p = Inr d"
      "dec_val d = of_int (em_cantidad_actual e) * dec_val p"
    using int_mul_dec_field_values [OF v] by blast
  show ?thesis
  proof (cases "coef p = 0")
    case True
    then show ?thesis using Some by (simp add: valor_total_stock_def dec_val_def)
  next
    case False
    then show ?thesis using Some d by (simp add: valor_total_stock_def)
  qed
qed

end
